theory Spec2Isabelle
  imports Complex_Main
begin

section \<open>Repair log of app\_reparo.py\<close>

text \<open>
  A shallow embedding of the database functions of \<^verbatim>\<open>src/app_reparo.py\<close>:
  \<^verbatim>\<open>validar_vin\<close>, \<^verbatim>\<open>verificar_reparo_aberto\<close>, \<^verbatim>\<open>iniciar_reparo\<close>,
  \<^verbatim>\<open>finalizar_reparo\<close>, \<^verbatim>\<open>get_registros\<close> and the MTTR metric of the data view.

  Conventions of the model.
  \<^item> The SQLite table \<^verbatim>\<open>registros\<close> is the list of its rows in insertion order; every
    function takes the table and returns the new one.
  \<^item> The text of a Python \<^verbatim>\<open>str\<close> is a \<open>string\<close> of ASCII characters: \<^verbatim>\<open>upper()\<close> maps
    a..z to A..Z and \<^verbatim>\<open>strip()\<close> removes the ASCII characters for which \<^verbatim>\<open>isspace()\<close>
    holds. Characters outside ASCII are left alone by both.
  \<^item> \<^verbatim>\<open>datetime.now()\<close> is an argument: the wall clock in microseconds. A stored timestamp
    (format \<^verbatim>\<open>%Y-%m-%d %H:%M:%S\<close>) is the whole number of seconds of the clock; the order of
    these fixed-width strings is the order of the numbers. A \<^verbatim>\<open>timedelta\<close> is a number of
    seconds (or of microseconds where the clock itself is subtracted).
  \<^item> \<^verbatim>\<open>str(uuid4())\<close> is an argument as well, and so is whether SQLite raises
    \<^verbatim>\<open>sqlite3.Error\<close> during the insert for a reason of its own (I/O, lock).
  \<^item> Floating-point quotients are computed exactly, over the rationals.
  \<^item> The two-valued results \<^verbatim>\<open>(False, message)\<close> are values of the type \<open>erro\<close>, one
    constructor for each message of the source.
\<close>

subsection \<open>Strings\<close>

definition isspace :: "char \<Rightarrow> bool" where
  "isspace c = ((of_char c :: nat) \<in> {9, 10, 11, 12, 13, 28, 29, 30, 31, 32})"

definition upper_char :: "char \<Rightarrow> char" where
  "upper_char c =
     (let n = (of_char c :: nat) in if 97 \<le> n \<and> n \<le> 122 then char_of (n - 32) else c)"

definition upper :: "string \<Rightarrow> string" where
  "upper s = map upper_char s"

definition strip :: "string \<Rightarrow> string" where
  "strip s = rev (dropWhile isspace (rev (dropWhile isspace s)))"

subsection \<open>The table\<close>

record registro =
  id_registro :: string
  vin :: string
  operador_id :: string
  tipo_retrabalho :: "string option"
  shop :: "string option"
  hora_inicio :: int
  hora_fim :: "int option"

type_synonym tabela = "registro list"

text \<open>
  The messages of the source (accents dropped here), under the names the specification
  gives its error kinds: \<open>InvalidInput\<close> is \<^verbatim>\<open>"VIN nao pode estar vazio."\<close>,
  \<open>OpenRepairExists m\<close> is
  \<^verbatim>\<open>"Ja existe um reparo em aberto para este VIN iniciado ha m minutos. ..."\<close>,
  \<open>StorageError\<close> is \<^verbatim>\<open>"Erro ao iniciar: ..."\<close> and \<open>NoOpenRepair\<close> is
  \<^verbatim>\<open>"Nenhum reparo em aberto encontrado para este VIN."\<close>.
\<close>

datatype erro = InvalidInput | OpenRepairExists int | StorageError | NoOpenRepair

record ambiente =
  agora :: int
  uuid4 :: string
  falha_sqlite :: bool

subsection \<open>Validation and lookup\<close>

text \<open>\<^verbatim>\<open>validar_vin\<close>: the emptiness test comes before the normalisation.\<close>

definition validar_vin :: "string \<Rightarrow> erro + string" where
  "validar_vin v = (if v = [] then Inl InvalidInput else Inr (strip (upper v)))"

text \<open>\<^verbatim>\<open>WHERE vin = ? AND hora_fim IS NULL\<close>\<close>

definition aberto_de :: "string \<Rightarrow> registro \<Rightarrow> bool" where
  "aberto_de v r = (vin r = v \<and> hora_fim r = None)"

text \<open>
  \<^verbatim>\<open>ORDER BY hora_inicio DESC\<close>. SQLite leaves the order of rows with equal keys open;
  the model keeps them in table order.
\<close>

definition order_by_hora_inicio_desc :: "registro list \<Rightarrow> registro list" where
  "order_by_hora_inicio_desc rs = sort_key (\<lambda>r. - hora_inicio r) rs"

text \<open>\<^verbatim>\<open>LIMIT 1\<close> and \<^verbatim>\<open>fetchone()\<close>\<close>

definition fetchone :: "'a list \<Rightarrow> 'a option" where
  "fetchone rs = (case rs of [] \<Rightarrow> None | r # _ \<Rightarrow> Some r)"

definition verificar_reparo_aberto :: "string \<Rightarrow> tabela \<Rightarrow> (string \<times> string \<times> int) option" where
  "verificar_reparo_aberto v db =
     map_option (\<lambda>r. (id_registro r, operador_id r, hora_inicio r))
       (fetchone (order_by_hora_inicio_desc (filter (aberto_de (upper v)) db)))"

subsection \<open>Start and stop\<close>

text \<open>
  \<^verbatim>\<open>int(tempo_decorrido.total_seconds() / 60)\<close> of a difference in microseconds:
  \<^verbatim>\<open>int\<close> rounds towards zero.
\<close>

definition minutos_inteiros :: "int \<Rightarrow> int" where
  "minutos_inteiros us = sgn us * (\<bar>us\<bar> div 60000000)"

text \<open>\<^verbatim>\<open>x if x else None\<close> on an optional string.\<close>

definition se_preenchido :: "string option \<Rightarrow> string option" where
  "se_preenchido x = (case x of None \<Rightarrow> None | Some s \<Rightarrow> if s = [] then None else Some s)"

definition iniciar_reparo ::
  "ambiente \<Rightarrow> string \<Rightarrow> string \<Rightarrow> string option \<Rightarrow> string option \<Rightarrow> tabela
     \<Rightarrow> (erro + string) \<times> tabela" where
  "iniciar_reparo env v operador tipo sh db =
     (case validar_vin v of
        Inl e \<Rightarrow> (Inl e, db)
      | Inr vin_formatado \<Rightarrow>
          (case verificar_reparo_aberto vin_formatado db of
             Some (_, _, hora_inicio_existente) \<Rightarrow>
               (Inl (OpenRepairExists
                  (minutos_inteiros (agora env - hora_inicio_existente * 1000000))), db)
           | None \<Rightarrow>
               (let reparo_id = uuid4 env;
                    inicio = agora env div 1000000
                in if falha_sqlite env \<or> reparo_id \<in> set (map id_registro db)
                   then (Inl StorageError, db)
                   else (Inr reparo_id,
                         db @ [\<lparr>id_registro = reparo_id, vin = vin_formatado,
                                operador_id = upper (strip operador),
                                tipo_retrabalho = map_option strip (se_preenchido tipo),
                                shop = se_preenchido sh,
                                hora_inicio = inicio, hora_fim = None\<rparr>]))))"

text \<open>\<^verbatim>\<open>UPDATE registros SET hora_fim = ? WHERE id = ?\<close>\<close>

definition update_hora_fim :: "int \<Rightarrow> string \<Rightarrow> tabela \<Rightarrow> tabela" where
  "update_hora_fim fim i db =
     map (\<lambda>r. if id_registro r = i then r\<lparr>hora_fim := Some fim\<rparr> else r) db"

definition finalizar_reparo ::
  "int \<Rightarrow> string \<Rightarrow> tabela \<Rightarrow> (erro + string \<times> int \<times> string) \<times> tabela" where
  "finalizar_reparo now v db =
     (case validar_vin v of
        Inl e \<Rightarrow> (Inl e, db)
      | Inr vin_formatado \<Rightarrow>
          (let fim = now div 1000000
           in case fetchone (order_by_hora_inicio_desc (filter (aberto_de vin_formatado) db)) of
                Some r \<Rightarrow>
                  (Inr (id_registro r, fim - hora_inicio r, operador_id r),
                   update_hora_fim fim (id_registro r) db)
              | None \<Rightarrow> (Inl NoOpenRepair, db)))"

subsection \<open>Sequences of calls\<close>

text \<open>
  A call of \<^verbatim>\<open>iniciar_reparo\<close> or of \<^verbatim>\<open>finalizar_reparo\<close> with its arguments and what
  the environment gives it; running a call keeps the table and drops the returned value.
\<close>

datatype operacao =
  Iniciar ambiente string string "string option" "string option"
| Finalizar int string

fun executar :: "operacao \<Rightarrow> tabela \<Rightarrow> tabela" where
  "executar (Iniciar env v operador tipo sh) db = snd (iniciar_reparo env v operador tipo sh db)"
| "executar (Finalizar now v) db = snd (finalizar_reparo now v db)"

definition executar_todas :: "operacao list \<Rightarrow> tabela \<Rightarrow> tabela" where
  "executar_todas ops db = fold executar ops db"

subsection \<open>Query and MTTR\<close>

text \<open>
  The arguments of \<^verbatim>\<open>get_registros\<close>. A date filter is the text \<^verbatim>\<open>YYYY-MM-DD\<close>, compared
  with \<^verbatim>\<open>DATE(hora_inicio)\<close>: both are day numbers here.
\<close>

record filtros =
  filtro_operador :: "string option"
  filtro_vin :: "string option"
  filtro_data_inicio :: "int option"
  filtro_data_fim :: "int option"
  apenas_completos :: bool

definition data_de :: "int \<Rightarrow> int" where
  "data_de t = t div 86400"

text \<open>The \<^verbatim>\<open>WHERE\<close> clause that \<^verbatim>\<open>get_registros\<close> builds, one conjunct for each filter given.\<close>

definition where_registros :: "filtros \<Rightarrow> registro \<Rightarrow> bool" where
  "where_registros f r =
     ((case se_preenchido (filtro_operador f) of
         None \<Rightarrow> True | Some operador \<Rightarrow> operador_id r = upper operador) \<and>
      (case se_preenchido (filtro_vin f) of
         None \<Rightarrow> True | Some v \<Rightarrow> vin r = upper v) \<and>
      (case filtro_data_inicio f of
         None \<Rightarrow> True | Some d \<Rightarrow> d \<le> data_de (hora_inicio r)) \<and>
      (case filtro_data_fim f of
         None \<Rightarrow> True | Some d \<Rightarrow> data_de (hora_inicio r) \<le> d) \<and>
      (if apenas_completos f then hora_fim r \<noteq> None else True))"

text \<open>
  The column \<^verbatim>\<open>Duracao (min)\<close>: \<^verbatim>\<open>(hora_fim - hora_inicio).dt.total_seconds() / 60\<close>,
  \<^verbatim>\<open>NaN\<close> (here \<open>None\<close>) in the row of an open repair.
\<close>

definition duracao_minutos :: "registro \<Rightarrow> rat option" where
  "duracao_minutos r = map_option (\<lambda>fim. of_int (fim - hora_inicio r) / 60) (hora_fim r)"

text \<open>
  A row of the data frame that \<^verbatim>\<open>get_registros\<close> returns is the stored row with its duration
  in minutes; the columns \<^verbatim>\<open>Duracao (h)\<close> and \<^verbatim>\<open>Data\<close> repeat the duration and the start.
\<close>

type_synonym linha = "registro \<times> rat option"

definition get_registros :: "filtros \<Rightarrow> tabela \<Rightarrow> linha list" where
  "get_registros f db =
     map (\<lambda>r. (r, duracao_minutos r))
       (order_by_hora_inicio_desc (filter (where_registros f) db))"

text \<open>\<^verbatim>\<open>Series.dropna()\<close>\<close>

definition dropna :: "'a option list \<Rightarrow> 'a list" where
  "dropna xs = concat (map (\<lambda>x. case x of None \<Rightarrow> [] | Some y \<Rightarrow> [y]) xs)"

text \<open>
  The metric \<^verbatim>\<open>Tempo Medio (MTTR)\<close> of the data view: \<^verbatim>\<open>reparos_completos.mean()\<close>, shown
  only when \<^verbatim>\<open>reparos_completos\<close> is not empty.
\<close>

definition tempo_medio :: "filtros \<Rightarrow> tabela \<Rightarrow> rat option" where
  "tempo_medio f db =
     (let reparos_completos = dropna (map snd (get_registros f db))
      in if reparos_completos = [] then None
         else Some (sum_list reparos_completos / of_nat (length reparos_completos)))"

text \<open>
  The words of the specification: the closed records of the filtered set, and the
  arithmetic mean of their durations in minutes.
\<close>

definition fechados_filtrados :: "filtros \<Rightarrow> tabela \<Rightarrow> registro list" where
  "fechados_filtrados f db = filter (\<lambda>r. where_registros f r \<and> hora_fim r \<noteq> None) db"

definition media_aritmetica_spec :: "registro list \<Rightarrow> rat" where
  "media_aritmetica_spec rs =
     (\<Sum>r\<leftarrow>rs. of_int (the (hora_fim r) - hora_inicio r) / 60) / of_nat (length rs)"

section \<open>Auxiliary facts\<close>

lemma upper_char_other:
  "\<not> (97 \<le> (of_char c :: nat) \<and> (of_char c :: nat) \<le> 122) \<Longrightarrow> upper_char c = c"
  unfolding upper_char_def Let_def by (rule if_not_P)

lemma upper_char_lower:
  "97 \<le> (of_char c :: nat) \<and> (of_char c :: nat) \<le> 122 \<Longrightarrow>
   upper_char c = char_of ((of_char c :: nat) - 32)"
  unfolding upper_char_def Let_def by (rule if_P)

lemma upper_char_idem: "upper_char (upper_char c) = upper_char c"
proof (cases "97 \<le> (of_char c :: nat) \<and> (of_char c :: nat) \<le> 122")
  case True
  define d where "d = char_of ((of_char c :: nat) - 32)"
  from True have "(of_char c :: nat) - 32 < 256"
    by arith
  then have "(of_char d :: nat) = of_char c - 32"
    by (simp add: d_def)
  with True have "\<not> (97 \<le> (of_char d :: nat) \<and> (of_char d :: nat) \<le> 122)"
    by arith
  then have "upper_char d = d"
    by (rule upper_char_other)
  moreover from True have "upper_char c = d"
    unfolding d_def by (rule upper_char_lower)
  ultimately show ?thesis by simp
next
  case False
  then have "upper_char c = c" by (rule upper_char_other)
  then show ?thesis by simp
qed

lemma upper_fixed: "\<forall>c\<in>set s. upper_char c = c \<Longrightarrow> upper s = s"
  by (simp add: upper_def map_idI)

lemma set_strip: "set (strip s) \<subseteq> set s"
proof -
  have "set (strip s) \<subseteq> set (dropWhile isspace s)"
    unfolding strip_def using set_dropWhileD[of _ isspace "rev (dropWhile isspace s)"] by auto
  also have "\<dots> \<subseteq> set s"
    using set_dropWhileD[of _ isspace s] by auto
  finally show ?thesis .
qed

lemma upper_strip_upper: "upper (strip (upper v)) = strip (upper v)"
proof (rule upper_fixed, rule ballI)
  fix c assume "c \<in> set (strip (upper v))"
  then have "c \<in> set (upper v)" using set_strip by blast
  then show "upper_char c = c" by (auto simp: upper_def upper_char_idem)
qed

lemma fetchone_None: "fetchone rs = None \<longleftrightarrow> rs = []"
  by (simp add: fetchone_def split: list.splits)

lemma order_Nil: "order_by_hora_inicio_desc rs = [] \<longleftrightarrow> rs = []"
  by (metis length_sort length_0_conv order_by_hora_inicio_desc_def)

lemma fetchone_order_None:
  "fetchone (order_by_hora_inicio_desc (filter P db)) = None \<longleftrightarrow> (\<forall>r\<in>set db. \<not> P r)"
  by (simp add: fetchone_None order_Nil filter_empty_conv)

lemma fetchone_order_Some:
  assumes "fetchone (order_by_hora_inicio_desc rs) = Some r"
  shows "r \<in> set rs \<and> (\<forall>q\<in>set rs. hora_inicio q \<le> hora_inicio r)"
proof -
  from assms obtain tl where eq: "order_by_hora_inicio_desc rs = r # tl"
    by (auto simp: fetchone_def split: list.splits)
  have st: "set (r # tl) = set rs"
    using eq by (metis order_by_hora_inicio_desc_def set_sort)
  have "sorted (map (\<lambda>r. - hora_inicio r) (r # tl))"
    using eq by (metis order_by_hora_inicio_desc_def sorted_sort_key)
  then have "\<forall>q\<in>set tl. hora_inicio q \<le> hora_inicio r" by auto
  with st show ?thesis by auto
qed

lemma validar_vin_Inr: "v \<noteq> [] \<Longrightarrow> validar_vin v = Inr (strip (upper v))"
  by (simp add: validar_vin_def)

lemma verificar_vin_formatado:
  "verificar_reparo_aberto (strip (upper v)) db =
     map_option (\<lambda>r. (id_registro r, operador_id r, hora_inicio r))
       (fetchone (order_by_hora_inicio_desc (filter (aberto_de (strip (upper v))) db)))"
  by (simp add: verificar_reparo_aberto_def upper_strip_upper)

lemma iniciar_reparo_existente:
  assumes "v \<noteq> []"
    and "fetchone (order_by_hora_inicio_desc (filter (aberto_de (strip (upper v))) db)) = Some r"
  shows "iniciar_reparo env v operador tipo sh db =
           (Inl (OpenRepairExists (minutos_inteiros (agora env - hora_inicio r * 1000000))), db)"
  using assms by (simp add: iniciar_reparo_def validar_vin_Inr verificar_vin_formatado)

lemma iniciar_reparo_livre:
  assumes "v \<noteq> []" and "\<forall>r\<in>set db. \<not> aberto_de (strip (upper v)) r"
  shows "iniciar_reparo env v operador tipo sh db =
           (if falha_sqlite env \<or> uuid4 env \<in> set (map id_registro db)
            then (Inl StorageError, db)
            else (Inr (uuid4 env),
                  db @ [\<lparr>id_registro = uuid4 env, vin = strip (upper v),
                         operador_id = upper (strip operador),
                         tipo_retrabalho = map_option strip (se_preenchido tipo),
                         shop = se_preenchido sh,
                         hora_inicio = agora env div 1000000, hora_fim = None\<rparr>]))"
proof -
  from assms(2)
  have "fetchone (order_by_hora_inicio_desc (filter (aberto_de (strip (upper v))) db)) = None"
    by (simp only: fetchone_order_None)
  with assms(1) show ?thesis
    by (simp add: iniciar_reparo_def validar_vin_Inr verificar_vin_formatado Let_def)
qed

lemma finalizar_reparo_existente:
  assumes "v \<noteq> []"
    and "fetchone (order_by_hora_inicio_desc (filter (aberto_de (strip (upper v))) db)) = Some r"
  shows "finalizar_reparo now v db =
           (Inr (id_registro r, now div 1000000 - hora_inicio r, operador_id r),
            update_hora_fim (now div 1000000) (id_registro r) db)"
  using assms by (simp add: finalizar_reparo_def validar_vin_Inr Let_def)

lemma finalizar_reparo_livre:
  assumes "v \<noteq> []" and "\<forall>r\<in>set db. \<not> aberto_de (strip (upper v)) r"
  shows "finalizar_reparo now v db = (Inl NoOpenRepair, db)"
proof -
  from assms(2)
  have "fetchone (order_by_hora_inicio_desc (filter (aberto_de (strip (upper v))) db)) = None"
    by (simp only: fetchone_order_None)
  with assms(1) show ?thesis
    by (simp add: finalizar_reparo_def validar_vin_Inr Let_def)
qed

lemma fetchone_exists:
  assumes "\<exists>r\<in>set db. P r"
  shows "\<exists>r. fetchone (order_by_hora_inicio_desc (filter P db)) = Some r"
proof (cases "fetchone (order_by_hora_inicio_desc (filter P db))")
  case None
  with assms show ?thesis by (simp add: fetchone_order_None)
next
  case (Some r)
  then show ?thesis by blast
qed

lemma fetchone_latest:
  assumes "fetchone (order_by_hora_inicio_desc (filter P db)) = Some r"
  shows "r \<in> set db \<and> P r \<and> (\<forall>q\<in>set db. P q \<longrightarrow> hora_inicio q \<le> hora_inicio r)"
  using fetchone_order_Some[OF assms] by auto

lemma filter_le_one_unique:
  assumes "length (filter P xs) \<le> 1" "x \<in> set xs" "y \<in> set xs" "P x" "P y"
  shows "x = y"
proof -
  from assms(1) obtain z where "set (filter P xs) \<subseteq> {z}"
    by (cases "filter P xs") (auto simp del: filter.simps set_filter)
  moreover from assms have "x \<in> set (filter P xs)" "y \<in> set (filter P xs)" by auto
  ultimately show ?thesis by blast
qed

lemma update_hora_fim_fecha:
  assumes "length (filter (aberto_de w) db) \<le> 1" "r \<in> set db" "aberto_de w r"
  shows "\<forall>q\<in>set (update_hora_fim fim (id_registro r) db). \<not> aberto_de w q"
proof
  fix q assume "q \<in> set (update_hora_fim fim (id_registro r) db)"
  then obtain p where p: "p \<in> set db"
    and q: "q = (if id_registro p = id_registro r then p\<lparr>hora_fim := Some fim\<rparr> else p)"
    by (auto simp: update_hora_fim_def)
  show "\<not> aberto_de w q"
  proof
    assume a: "aberto_de w q"
    with q have ne: "id_registro p \<noteq> id_registro r"
      by (auto simp: aberto_de_def split: if_splits)
    with q a have "aberto_de w p" by simp
    with assms p have "p = r" by (blast intro: filter_le_one_unique)
    with ne show False by simp
  qed
qed

lemma update_hora_fim_distinct:
  assumes "distinct (map id_registro db)" "r \<in> set db"
  shows "update_hora_fim fim (id_registro r) db =
           map (\<lambda>q. if q = r then q\<lparr>hora_fim := Some fim\<rparr> else q) db"
proof -
  have "\<forall>q\<in>set db. (id_registro q = id_registro r) = (q = r)"
    using assms by (auto simp: distinct_map inj_on_def)
  then show ?thesis
    by (simp add: update_hora_fim_def cong: map_cong)
qed

lemma iniciar_reparo_casos:
  "snd (iniciar_reparo env v operador tipo sh db) = db \<or>
   (v \<noteq> [] \<and> (\<forall>r\<in>set db. \<not> aberto_de (strip (upper v)) r) \<and>
    uuid4 env \<notin> set (map id_registro db) \<and>
    snd (iniciar_reparo env v operador tipo sh db) =
      db @ [\<lparr>id_registro = uuid4 env, vin = strip (upper v),
             operador_id = upper (strip operador),
             tipo_retrabalho = map_option strip (se_preenchido tipo),
             shop = se_preenchido sh,
             hora_inicio = agora env div 1000000, hora_fim = None\<rparr>])"
proof (cases "v = []")
  case True
  then show ?thesis by (simp add: iniciar_reparo_def validar_vin_def)
next
  case False
  show ?thesis
  proof (cases "\<forall>r\<in>set db. \<not> aberto_de (strip (upper v)) r")
    case True
    show ?thesis
      unfolding iniciar_reparo_livre [OF False True] using False True by simp
  next
    case False
    then obtain r
      where "fetchone (order_by_hora_inicio_desc (filter (aberto_de (strip (upper v))) db)) = Some r"
      using fetchone_exists [of db "aberto_de (strip (upper v))"] by blast
    from iniciar_reparo_existente [OF \<open>v \<noteq> []\<close> this] show ?thesis by simp
  qed
qed

lemma finalizar_reparo_casos:
  "snd (finalizar_reparo now v db) = db \<or>
   (\<exists>r\<in>set db. aberto_de (strip (upper v)) r \<and>
      snd (finalizar_reparo now v db) = update_hora_fim (now div 1000000) (id_registro r) db)"
proof (cases "v = []")
  case True
  then show ?thesis by (simp add: finalizar_reparo_def validar_vin_def)
next
  case False
  show ?thesis
  proof (cases "\<forall>r\<in>set db. \<not> aberto_de (strip (upper v)) r")
    case True
    from finalizar_reparo_livre [OF False True] show ?thesis by simp
  next
    case False
    then obtain r
      where r: "fetchone (order_by_hora_inicio_desc (filter (aberto_de (strip (upper v))) db)) = Some r"
      using fetchone_exists [of db "aberto_de (strip (upper v))"] by blast
    from finalizar_reparo_existente [OF \<open>v \<noteq> []\<close> r, of now] fetchone_latest [OF r]
    show ?thesis by auto
  qed
qed

lemma filter_update_hora_fim_le:
  "length (filter (aberto_de w) (update_hora_fim fim i db)) \<le> length (filter (aberto_de w) db)"
  by (induction db) (auto simp: update_hora_fim_def aberto_de_def)

lemma map_id_update_hora_fim:
  "map id_registro (update_hora_fim fim i db) = map id_registro db"
  by (induction db) (auto simp: update_hora_fim_def)

lemma update_hora_fim_ausente:
  "i \<notin> set (map id_registro db) \<Longrightarrow> update_hora_fim fim i db = db"
  by (induction db) (auto simp: update_hora_fim_def)

lemma abertos_update_hora_fim:
  "distinct (map id_registro db) \<Longrightarrow>
   length (filter (\<lambda>r. hora_fim r = None) db)
     \<le> Suc (length (filter (\<lambda>r. hora_fim r = None) (update_hora_fim fim i db)))"
proof (induction db)
  case Nil
  then show ?case by (simp add: update_hora_fim_def)
next
  case (Cons r db)
  show ?case
  proof (cases "id_registro r = i")
    case True
    with Cons.prems have "update_hora_fim fim i db = db"
      by (simp add: update_hora_fim_ausente)
    then have "update_hora_fim fim i (r # db) = r\<lparr>hora_fim := Some fim\<rparr> # db"
      using True by (simp add: update_hora_fim_def)
    then show ?thesis by simp
  next
    case False
    then have "update_hora_fim fim i (r # db) = r # update_hora_fim fim i db"
      by (simp add: update_hora_fim_def)
    with Cons show ?thesis by simp
  qed
qed

lemma executar_um_aberto:
  assumes "\<forall>w. length (filter (aberto_de w) db) \<le> 1"
  shows "length (filter (aberto_de w) (executar op db)) \<le> 1"
proof (cases op)
  case (Iniciar env v operador tipo sh)
  from iniciar_reparo_casos [of env v operador tipo sh db] show ?thesis
  proof
    assume "snd (iniciar_reparo env v operador tipo sh db) = db"
    with assms show ?thesis by (simp add: Iniciar)
  next
    assume a: "v \<noteq> [] \<and> (\<forall>r\<in>set db. \<not> aberto_de (strip (upper v)) r) \<and>
      uuid4 env \<notin> set (map id_registro db) \<and>
      snd (iniciar_reparo env v operador tipo sh db) =
        db @ [\<lparr>id_registro = uuid4 env, vin = strip (upper v),
               operador_id = upper (strip operador),
               tipo_retrabalho = map_option strip (se_preenchido tipo),
               shop = se_preenchido sh,
               hora_inicio = agora env div 1000000, hora_fim = None\<rparr>]"
    show ?thesis
    proof (cases "w = strip (upper v)")
      case True
      from a have "\<forall>r\<in>set db. \<not> aberto_de (strip (upper v)) r"
        by blast
      then have "filter (aberto_de (strip (upper v))) db = []"
        by (simp only: filter_empty_conv)
      with a True show ?thesis by (simp add: Iniciar)
    next
      case False
      with a assms show ?thesis by (simp add: Iniciar aberto_de_def)
    qed
  qed
next
  case (Finalizar now v)
  from finalizar_reparo_casos [of now v db] show ?thesis
  proof
    assume "snd (finalizar_reparo now v db) = db"
    with assms show ?thesis by (simp add: Finalizar)
  next
    assume "\<exists>r\<in>set db. aberto_de (strip (upper v)) r \<and>
      snd (finalizar_reparo now v db) = update_hora_fim (now div 1000000) (id_registro r) db"
    then obtain r where "r \<in> set db" and
      "snd (finalizar_reparo now v db) = update_hora_fim (now div 1000000) (id_registro r) db"
      by blast
    with filter_update_hora_fim_le [of w "now div 1000000" "id_registro r" db] assms [rule_format, of w]
    show ?thesis by (simp add: Finalizar)
  qed
qed

lemma executar_distinct:
  assumes "distinct (map id_registro db)"
  shows "distinct (map id_registro (executar op db))"
proof (cases op)
  case (Iniciar env v operador tipo sh)
  from iniciar_reparo_casos [of env v operador tipo sh db] assms
  show ?thesis by (auto simp: Iniciar)
next
  case (Finalizar now v)
  from finalizar_reparo_casos [of now v db] assms
  show ?thesis by (auto simp: Finalizar map_id_update_hora_fim)
qed

lemma executar_todas_um_aberto:
  "\<forall>w. length (filter (aberto_de w) db) \<le> 1 \<Longrightarrow>
   length (filter (aberto_de w) (executar_todas ops db)) \<le> 1"
proof (induction ops arbitrary: db w)
  case Nil
  then show ?case by (simp add: executar_todas_def)
next
  case (Cons op ops)
  from Cons.prems have "\<forall>w. length (filter (aberto_de w) (executar op db)) \<le> 1"
    by (blast intro: executar_um_aberto)
  from Cons.IH [OF this] show ?case by (simp add: executar_todas_def)
qed

lemma executar_todas_distinct:
  "distinct (map id_registro db) \<Longrightarrow> distinct (map id_registro (executar_todas ops db))"
proof (induction ops arbitrary: db)
  case Nil
  then show ?case by (simp add: executar_todas_def)
next
  case (Cons op ops)
  from Cons.IH [OF executar_distinct [OF Cons.prems]] show ?case
    by (simp add: executar_todas_def)
qed

lemma executar_fechado:
  assumes "distinct (map id_registro db)" "r \<in> set db" "hora_fim r \<noteq> None"
  shows "r \<in> set (executar op db)"
proof (cases op)
  case (Iniciar env v operador tipo sh)
  from iniciar_reparo_casos [of env v operador tipo sh db] assms(2)
  show ?thesis by (auto simp: Iniciar)
next
  case (Finalizar now v)
  from finalizar_reparo_casos [of now v db] show ?thesis
  proof
    assume "snd (finalizar_reparo now v db) = db"
    with assms(2) show ?thesis by (simp add: Finalizar)
  next
    assume "\<exists>q\<in>set db. aberto_de (strip (upper v)) q \<and>
      snd (finalizar_reparo now v db) = update_hora_fim (now div 1000000) (id_registro q) db"
    then obtain q where q: "q \<in> set db" "aberto_de (strip (upper v)) q"
      and s: "snd (finalizar_reparo now v db) = update_hora_fim (now div 1000000) (id_registro q) db"
      by blast
    from q(2) assms(3) have "r \<noteq> q" by (auto simp: aberto_de_def)
    then have "r \<in> set (map (\<lambda>p. if p = q then p\<lparr>hora_fim := Some (now div 1000000)\<rparr> else p) db)"
      using assms(2) by force
    then show ?thesis
      by (simp only: Finalizar executar.simps s update_hora_fim_distinct [OF assms(1) q(1)])
  qed
qed

lemma isspace_upper_char: "isspace (upper_char c) = isspace c"
proof (cases "97 \<le> (of_char c :: nat) \<and> (of_char c :: nat) \<le> 122")
  case True
  then have "(of_char c :: nat) - 32 < 256" by arith
  then have "(of_char (char_of ((of_char c :: nat) - 32)) :: nat) = of_char c - 32"
    by simp
  with True have "65 \<le> (of_char (upper_char c) :: nat)" "33 \<le> (of_char c :: nat)"
    by (simp_all only: upper_char_lower [OF True]) arith+
  then show ?thesis by (simp add: isspace_def)
next
  case False
  then have "upper_char c = c" by (rule upper_char_other)
  then show ?thesis by simp
qed

lemma dropWhile_isspace_upper: "dropWhile isspace (upper s) = upper (dropWhile isspace s)"
  by (induction s) (simp_all add: upper_def isspace_upper_char)

lemma strip_upper: "strip (upper s) = upper (strip s)"
proof -
  have r: "rev (upper t) = upper (rev t)" for t
    by (simp add: upper_def rev_map)
  show ?thesis
    by (simp only: strip_def dropWhile_isspace_upper r)
qed

lemma sum_list_insort_key:
  "sum_list (map g (insort_key k x xs)) = (g x :: rat) + sum_list (map g xs)"
  by (induction xs) simp_all

lemma sum_list_order:
  "sum_list (map g (order_by_hora_inicio_desc rs)) = (sum_list (map g rs) :: rat)"
  by (induction rs) (simp_all add: order_by_hora_inicio_desc_def sum_list_insort_key)

lemma dropna_duracao:
  "dropna (map duracao_minutos rs) =
     map (\<lambda>r. of_int (the (hora_fim r) - hora_inicio r) / 60)
       (filter (\<lambda>r. hora_fim r \<noteq> None) rs)"
  by (induction rs) (auto simp: dropna_def duracao_minutos_def)

lemma fechados_get_registros:
  "filter (\<lambda>r. hora_fim r \<noteq> None) (order_by_hora_inicio_desc (filter (where_registros f) db))
     = order_by_hora_inicio_desc (fechados_filtrados f db)"
  by (simp add: order_by_hora_inicio_desc_def fechados_filtrados_def filter_sort conj_commute)

lemma dropna_get_registros:
  "dropna (map snd (get_registros f db)) =
     map (\<lambda>r. of_int (the (hora_fim r) - hora_inicio r) / 60)
       (order_by_hora_inicio_desc (fechados_filtrados f db))"
proof -
  have "map snd (get_registros f db) =
          map duracao_minutos (order_by_hora_inicio_desc (filter (where_registros f) db))"
    by (simp add: get_registros_def comp_def)
  then show ?thesis
    by (simp only: dropna_duracao fechados_get_registros)
qed

lemma length_order: "length (order_by_hora_inicio_desc rs) = length rs"
  by (simp add: order_by_hora_inicio_desc_def)

section \<open>Start: error paths and optional fields\<close>

text \<open>
  C9. Whenever \<^verbatim>\<open>iniciar_reparo\<close> returns a failure (empty VIN, a repair already open for the
  VIN, or an \<^verbatim>\<open>sqlite3.Error\<close> during the insert), the table after the call is the table
  before it: no row is inserted or changed on an error path.
\<close>

theorem iniciar_reparo_falha_preserva:
  "fst (iniciar_reparo env v operador tipo sh db) = Inl e \<Longrightarrow>
   snd (iniciar_reparo env v operador tipo sh db) = db"
  by (auto simp: iniciar_reparo_def Let_def split: sum.splits option.splits if_splits)

theorem iniciar_reparo_falha_preserva_witness:
  "fst (iniciar_reparo \<lparr>agora = 200000000, uuid4 = ''r2'', falha_sqlite = False\<rparr>
          ''x1'' ''op2'' None (Some ''PS'')
          [\<lparr>id_registro = ''r1'', vin = ''X1'', operador_id = ''OP1'', tipo_retrabalho = None,
            shop = Some ''BS'', hora_inicio = 10, hora_fim = None\<rparr>])
     = Inl (OpenRepairExists 3) \<and>
   snd (iniciar_reparo \<lparr>agora = 200000000, uuid4 = ''r2'', falha_sqlite = False\<rparr>
          ''x1'' ''op2'' None (Some ''PS'')
          [\<lparr>id_registro = ''r1'', vin = ''X1'', operador_id = ''OP1'', tipo_retrabalho = None,
            shop = Some ''BS'', hora_inicio = 10, hora_fim = None\<rparr>])
     = [\<lparr>id_registro = ''r1'', vin = ''X1'', operador_id = ''OP1'', tipo_retrabalho = None,
         shop = Some ''BS'', hora_inicio = 10, hora_fim = None\<rparr>]"
proof -
  have h: "fst (iniciar_reparo \<lparr>agora = 200000000, uuid4 = ''r2'', falha_sqlite = False\<rparr>
          ''x1'' ''op2'' None (Some ''PS'')
          [\<lparr>id_registro = ''r1'', vin = ''X1'', operador_id = ''OP1'', tipo_retrabalho = None,
            shop = Some ''BS'', hora_inicio = 10, hora_fim = None\<rparr>])
     = Inl (OpenRepairExists 3)"
    by code_simp
  from h iniciar_reparo_falha_preserva [OF h] show ?thesis by (rule conjI)
qed

text \<open>
  C5, as the code has it. \<^verbatim>\<open>iniciar_reparo\<close> rejects the empty VIN, the test being made on
  the text as given, and then creates no row; it makes no test on the operator. A call with
  the empty operator succeeds and stores a row whose operator is the empty text.
\<close>

theorem iniciar_reparo_operador_vazio_counterexample:
  "iniciar_reparo \<lparr>agora = 0, uuid4 = ''r1'', falha_sqlite = False\<rparr>
       ''X1'' [] None (Some ''BS'') []
     = (Inr ''r1'', [\<lparr>id_registro = ''r1'', vin = ''X1'', operador_id = [],
                      tipo_retrabalho = None, shop = Some ''BS'', hora_inicio = 0,
                      hora_fim = None\<rparr>])"
  by code_simp

text \<open>
  C5, amended. For every call of \<^verbatim>\<open>iniciar_reparo\<close> whose VIN is the empty text, the call fails
  with \<open>InvalidInput\<close> and the table is unchanged.
\<close>

theorem iniciar_reparo_vin_vazio:
  "iniciar_reparo env [] operador tipo sh db = (Inl InvalidInput, db)"
  by (simp add: iniciar_reparo_def validar_vin_def)

text \<open>
  C10. For every non-empty VIN with no open repair, \<^verbatim>\<open>iniciar_reparo\<close> succeeds (given a fresh
  id and no SQLite error) also when \<^verbatim>\<open>shop\<close> is \<^verbatim>\<open>None\<close> or empty and \<^verbatim>\<open>tipo_retrabalho\<close> is
  \<^verbatim>\<open>None\<close>, and the row it appends has a null shop: the set BS, PS, GA is not enforced here.
\<close>

theorem iniciar_reparo_sem_shop:
  assumes "v \<noteq> []" and "\<forall>r\<in>set db. \<not> aberto_de (strip (upper v)) r"
    and "\<not> falha_sqlite env" and "uuid4 env \<notin> set (map id_registro db)"
    and "sh = None \<or> sh = Some []"
  shows "iniciar_reparo env v operador None sh db =
           (Inr (uuid4 env),
            db @ [\<lparr>id_registro = uuid4 env, vin = strip (upper v),
                   operador_id = upper (strip operador), tipo_retrabalho = None, shop = None,
                   hora_inicio = agora env div 1000000, hora_fim = None\<rparr>])"
  using assms(3-5) by (auto simp: iniciar_reparo_livre[OF assms(1,2)] se_preenchido_def)

theorem iniciar_reparo_sem_shop_witness:
  "iniciar_reparo \<lparr>agora = 5000000, uuid4 = ''r2'', falha_sqlite = False\<rparr>
       '' x2 '' ''op1'' None (Some [])
       [\<lparr>id_registro = ''r1'', vin = ''X1'', operador_id = ''OP1'', tipo_retrabalho = None,
         shop = Some ''BS'', hora_inicio = 1, hora_fim = None\<rparr>]
     = (Inr ''r2'',
        [\<lparr>id_registro = ''r1'', vin = ''X1'', operador_id = ''OP1'', tipo_retrabalho = None,
          shop = Some ''BS'', hora_inicio = 1, hora_fim = None\<rparr>,
         \<lparr>id_registro = ''r2'', vin = ''X2'', operador_id = ''OP1'', tipo_retrabalho = None,
          shop = None, hora_inicio = 5, hora_fim = None\<rparr>])"
proof -
  let ?env = "\<lparr>agora = 5000000, uuid4 = ''r2'', falha_sqlite = False\<rparr>"
  let ?db = "[\<lparr>id_registro = ''r1'', vin = ''X1'', operador_id = ''OP1'',
               tipo_retrabalho = None, shop = Some ''BS'', hora_inicio = 1, hora_fim = None\<rparr>]"
  have h1: "'' x2 '' \<noteq> []" by simp
  have n: "strip (upper '' x2 '') = ''X2''" by code_simp
  have o: "upper (strip ''op1'') = ''OP1''" by code_simp
  have h2: "\<forall>r\<in>set ?db. \<not> aberto_de (strip (upper '' x2 '')) r"
    by (simp add: n aberto_de_def)
  have h3: "\<not> falha_sqlite ?env" by simp
  have h4: "uuid4 ?env \<notin> set (map id_registro ?db)" by simp
  have h5: "Some ([]::string) = None \<or> Some ([]::string) = Some []" by simp
  show ?thesis
    using iniciar_reparo_sem_shop [OF h1 h2 h3 h4 h5, of "''op1''"] by (simp add: n o)
qed

section \<open>Start on a VIN with an open repair\<close>

text \<open>
  C2. For every (non-empty) VIN that already has an open row, \<^verbatim>\<open>iniciar_reparo\<close> fails with
  \<open>OpenRepairExists\<close>, and the minutes it reports are the clock minus the start of an open row
  of the normalised VIN, the latest started one, in whole minutes; the table is unchanged.
  In particular, a start that succeeded, followed by a start of the same VIN, fails so, with
  the minutes counted from the first start.
\<close>

theorem iniciar_reparo_reparo_aberto:
  assumes "v \<noteq> []"
  shows "((\<exists>r\<in>set db. aberto_de (strip (upper v)) r) \<longrightarrow>
            (\<exists>r\<in>set db. aberto_de (strip (upper v)) r \<and>
               (\<forall>q\<in>set db. aberto_de (strip (upper v)) q \<longrightarrow> hora_inicio q \<le> hora_inicio r) \<and>
               iniciar_reparo env v operador tipo sh db =
                 (Inl (OpenRepairExists
                    (minutos_inteiros (agora env - hora_inicio r * 1000000))), db))) \<and>
         (\<forall>i db'. iniciar_reparo env v operador tipo sh db = (Inr i, db') \<longrightarrow>
            iniciar_reparo env2 v operador2 tipo2 sh2 db' =
              (Inl (OpenRepairExists
                 (minutos_inteiros (agora env2 - (agora env div 1000000) * 1000000))), db'))"
proof (intro conjI impI allI)
  assume "\<exists>r\<in>set db. aberto_de (strip (upper v)) r"
  then obtain r
    where r: "fetchone (order_by_hora_inicio_desc (filter (aberto_de (strip (upper v))) db)) = Some r"
    using fetchone_exists by blast
  from fetchone_latest [OF r] iniciar_reparo_existente [OF assms r]
  show "\<exists>r\<in>set db. aberto_de (strip (upper v)) r \<and>
          (\<forall>q\<in>set db. aberto_de (strip (upper v)) q \<longrightarrow> hora_inicio q \<le> hora_inicio r) \<and>
          iniciar_reparo env v operador tipo sh db =
            (Inl (OpenRepairExists (minutos_inteiros (agora env - hora_inicio r * 1000000))), db)"
    by blast
next
  fix i db'
  assume ok: "iniciar_reparo env v operador tipo sh db = (Inr i, db')"
  define novo where "novo = \<lparr>id_registro = uuid4 env, vin = strip (upper v),
      operador_id = upper (strip operador),
      tipo_retrabalho = map_option strip (se_preenchido tipo), shop = se_preenchido sh,
      hora_inicio = agora env div 1000000, hora_fim = None\<rparr>"
  have livre: "\<forall>r\<in>set db. \<not> aberto_de (strip (upper v)) r"
  proof (rule ccontr)
    assume "\<not> (\<forall>r\<in>set db. \<not> aberto_de (strip (upper v)) r)"
    then obtain r
      where "fetchone (order_by_hora_inicio_desc (filter (aberto_de (strip (upper v))) db)) = Some r"
      using fetchone_exists [of db "aberto_de (strip (upper v))"] by blast
    from iniciar_reparo_existente [OF assms this] ok show False by simp
  qed
  from ok have db': "db' = db @ [novo]"
    unfolding iniciar_reparo_livre [OF assms livre] novo_def by (auto split: if_splits)
  from livre have "filter (aberto_de (strip (upper v))) db = []"
    by (simp only: filter_empty_conv)
  then have "filter (aberto_de (strip (upper v))) db' = [novo]"
    by (simp add: db' novo_def aberto_de_def)
  then have "fetchone (order_by_hora_inicio_desc (filter (aberto_de (strip (upper v))) db'))
               = Some novo"
    by (simp add: order_by_hora_inicio_desc_def fetchone_def)
  from iniciar_reparo_existente [OF assms this]
  show "iniciar_reparo env2 v operador2 tipo2 sh2 db' =
          (Inl (OpenRepairExists
             (minutos_inteiros (agora env2 - (agora env div 1000000) * 1000000))), db')"
    by (simp add: novo_def)
qed

theorem iniciar_reparo_reparo_aberto_witness:
  "iniciar_reparo \<lparr>agora = 200000000, uuid4 = ''r2'', falha_sqlite = False\<rparr>
       ''x1'' ''op2'' None (Some ''PS'')
       [\<lparr>id_registro = ''r1'', vin = ''X1'', operador_id = ''OP1'', tipo_retrabalho = None,
         shop = Some ''BS'', hora_inicio = 10, hora_fim = None\<rparr>]
     = (Inl (OpenRepairExists 3),
        [\<lparr>id_registro = ''r1'', vin = ''X1'', operador_id = ''OP1'', tipo_retrabalho = None,
          shop = Some ''BS'', hora_inicio = 10, hora_fim = None\<rparr>]) \<and>
   iniciar_reparo \<lparr>agora = 130500000, uuid4 = ''r2'', falha_sqlite = False\<rparr>
       ''x1'' ''op2'' None (Some ''PS'')
       [\<lparr>id_registro = ''r1'', vin = ''X1'', operador_id = ''OP1'', tipo_retrabalho = None,
         shop = Some ''BS'', hora_inicio = 10, hora_fim = None\<rparr>]
     = (Inl (OpenRepairExists 2),
        [\<lparr>id_registro = ''r1'', vin = ''X1'', operador_id = ''OP1'', tipo_retrabalho = None,
          shop = Some ''BS'', hora_inicio = 10, hora_fim = None\<rparr>])"
proof -
  let ?r1 = "\<lparr>id_registro = ''r1'', vin = ''X1'', operador_id = ''OP1'', tipo_retrabalho = None,
              shop = Some ''BS'', hora_inicio = 10, hora_fim = None\<rparr>"
  let ?env1 = "\<lparr>agora = 10999999, uuid4 = ''r1'', falha_sqlite = False\<rparr>"
  have h: "''x1'' \<noteq> []" by simp
  have n: "strip (upper ''x1'') = ''X1''" by code_simp
  have a: "\<exists>r\<in>set [?r1]. aberto_de (strip (upper ''x1'')) r"
    by (simp add: n aberto_de_def)
  have first: "iniciar_reparo ?env1 ''x1'' ''op1'' None (Some ''BS'') [] = (Inr ''r1'', [?r1])"
    by code_simp
  have m: "minutos_inteiros 190000000 = 3" "minutos_inteiros 120500000 = 2"
    by (simp_all add: minutos_inteiros_def)
  from iniciar_reparo_reparo_aberto
         [OF h, of "[?r1]" "\<lparr>agora = 200000000, uuid4 = ''r2'', falha_sqlite = False\<rparr>"
            "''op2''" None "Some ''PS''"] a
  have one: "iniciar_reparo \<lparr>agora = 200000000, uuid4 = ''r2'', falha_sqlite = False\<rparr>
               ''x1'' ''op2'' None (Some ''PS'') [?r1] = (Inl (OpenRepairExists 3), [?r1])"
    by (simp add: m)
  from iniciar_reparo_reparo_aberto
         [OF h, of "[]" ?env1 "''op1''" None "Some ''BS''"
            "\<lparr>agora = 130500000, uuid4 = ''r2'', falha_sqlite = False\<rparr>"
            "''op2''" None "Some ''PS''"] first
  have two: "iniciar_reparo \<lparr>agora = 130500000, uuid4 = ''r2'', falha_sqlite = False\<rparr>
               ''x1'' ''op2'' None (Some ''PS'') [?r1] = (Inl (OpenRepairExists 2), [?r1])"
    by (simp add: m)
  from one two show ?thesis by (rule conjI)
qed

section \<open>Stop\<close>

text \<open>
  C3. For every (non-empty) VIN with no open row, \<^verbatim>\<open>finalizar_reparo\<close> fails with
  \<open>NoOpenRepair\<close> and leaves the table unchanged, whether the VIN has closed rows or none at
  all; and where the VIN has at most one open row, a stop that succeeded, followed by a stop
  of the same VIN, fails with \<open>NoOpenRepair\<close> and changes nothing.
\<close>

theorem finalizar_reparo_sem_aberto:
  assumes "v \<noteq> []"
  shows "((\<forall>r\<in>set db. vin r = strip (upper v) \<longrightarrow> hora_fim r \<noteq> None) \<longrightarrow>
            finalizar_reparo now v db = (Inl NoOpenRepair, db)) \<and>
         (length (filter (aberto_de (strip (upper v))) db) \<le> 1 \<longrightarrow>
            (\<forall>res db'. finalizar_reparo now v db = (Inr res, db') \<longrightarrow>
               finalizar_reparo now2 v db' = (Inl NoOpenRepair, db')))"
proof (intro conjI impI allI)
  assume "\<forall>r\<in>set db. vin r = strip (upper v) \<longrightarrow> hora_fim r \<noteq> None"
  then have "\<forall>r\<in>set db. \<not> aberto_de (strip (upper v)) r"
    by (simp add: aberto_de_def)
  then show "finalizar_reparo now v db = (Inl NoOpenRepair, db)"
    by (rule finalizar_reparo_livre [OF assms])
next
  fix res db'
  assume one: "length (filter (aberto_de (strip (upper v))) db) \<le> 1"
    and ok: "finalizar_reparo now v db = (Inr res, db')"
  have "\<exists>r\<in>set db. aberto_de (strip (upper v)) r"
  proof (rule ccontr)
    assume "\<not> (\<exists>r\<in>set db. aberto_de (strip (upper v)) r)"
    then have "\<forall>r\<in>set db. \<not> aberto_de (strip (upper v)) r" by blast
    from finalizar_reparo_livre [OF assms this] ok show False by simp
  qed
  then obtain r
    where r: "fetchone (order_by_hora_inicio_desc (filter (aberto_de (strip (upper v))) db)) = Some r"
    using fetchone_exists by blast
  from finalizar_reparo_existente [OF assms r] ok
  have db': "db' = update_hora_fim (now div 1000000) (id_registro r) db" by simp
  from fetchone_latest [OF r] have "r \<in> set db" "aberto_de (strip (upper v)) r" by simp_all
  from update_hora_fim_fecha [OF one this]
  have "\<forall>q\<in>set db'. \<not> aberto_de (strip (upper v)) q" by (simp only: db')
  then show "finalizar_reparo now2 v db' = (Inl NoOpenRepair, db')"
    by (rule finalizar_reparo_livre [OF assms])
qed

theorem finalizar_reparo_sem_aberto_witness:
  "finalizar_reparo 50000000 ''x1'' [] = (Inl NoOpenRepair, []) \<and>
   finalizar_reparo 50000000 ''x1''
       [\<lparr>id_registro = ''r1'', vin = ''X1'', operador_id = ''OP1'', tipo_retrabalho = None,
         shop = Some ''BS'', hora_inicio = 10, hora_fim = Some 70\<rparr>]
     = (Inl NoOpenRepair,
        [\<lparr>id_registro = ''r1'', vin = ''X1'', operador_id = ''OP1'', tipo_retrabalho = None,
          shop = Some ''BS'', hora_inicio = 10, hora_fim = Some 70\<rparr>]) \<and>
   finalizar_reparo 70500000 ''x1''
       [\<lparr>id_registro = ''r1'', vin = ''X1'', operador_id = ''OP1'', tipo_retrabalho = None,
         shop = Some ''BS'', hora_inicio = 10, hora_fim = None\<rparr>]
     = (Inr (''r1'', 60, ''OP1''),
        [\<lparr>id_registro = ''r1'', vin = ''X1'', operador_id = ''OP1'', tipo_retrabalho = None,
          shop = Some ''BS'', hora_inicio = 10, hora_fim = Some 70\<rparr>]) \<and>
   finalizar_reparo 99000000 ''x1''
       [\<lparr>id_registro = ''r1'', vin = ''X1'', operador_id = ''OP1'', tipo_retrabalho = None,
         shop = Some ''BS'', hora_inicio = 10, hora_fim = Some 70\<rparr>]
     = (Inl NoOpenRepair,
        [\<lparr>id_registro = ''r1'', vin = ''X1'', operador_id = ''OP1'', tipo_retrabalho = None,
          shop = Some ''BS'', hora_inicio = 10, hora_fim = Some 70\<rparr>])"
proof -
  let ?aberto = "\<lparr>id_registro = ''r1'', vin = ''X1'', operador_id = ''OP1'',
      tipo_retrabalho = None, shop = Some ''BS'', hora_inicio = 10, hora_fim = None\<rparr>"
  let ?fechado = "\<lparr>id_registro = ''r1'', vin = ''X1'', operador_id = ''OP1'',
      tipo_retrabalho = None, shop = Some ''BS'', hora_inicio = 10, hora_fim = Some 70\<rparr>"
  have h: "''x1'' \<noteq> []" by simp
  note t = finalizar_reparo_sem_aberto [OF h]
  have c0: "\<forall>r\<in>set ([]::tabela). vin r = strip (upper ''x1'') \<longrightarrow> hora_fim r \<noteq> None"
    by simp
  have c1: "\<forall>r\<in>set [?fechado]. vin r = strip (upper ''x1'') \<longrightarrow> hora_fim r \<noteq> None"
    by simp
  have l: "length (filter (aberto_de (strip (upper ''x1''))) [?aberto]) \<le> 1"
    by simp
  have stop: "finalizar_reparo 70500000 ''x1'' [?aberto] = (Inr (''r1'', 60, ''OP1''), [?fechado])"
    by code_simp
  from t [of "[]" 50000000] c0
  have never: "finalizar_reparo 50000000 ''x1'' [] = (Inl NoOpenRepair, [])"
    by blast
  from t [of "[?fechado]" 50000000] c1
  have closed: "finalizar_reparo 50000000 ''x1'' [?fechado] = (Inl NoOpenRepair, [?fechado])"
    by blast
  from t [of "[?aberto]" 70500000 99000000] l stop
  have again: "finalizar_reparo 99000000 ''x1'' [?fechado] = (Inl NoOpenRepair, [?fechado])"
    by blast
  from never closed stop again show ?thesis by (intro conjI)
qed

text \<open>
  C4. For every (non-empty) VIN with an open row, \<^verbatim>\<open>finalizar_reparo\<close> takes an open row of the
  normalised VIN whose start is the latest among them, returns its id, the duration
  (the end, which is the clock in whole seconds, minus the start) and the operator stored in
  the row, and writes the end into the rows with that id: where ids are unique, into that row
  alone. The operator stored is the one \<^verbatim>\<open>iniciar_reparo\<close> wrote, trimmed and in upper case:
  a stop right after a successful start returns the id of the start, the time between the
  two and that operator.
\<close>

theorem finalizar_reparo_sucesso:
  assumes "v \<noteq> []"
  shows "((\<exists>r\<in>set db. aberto_de (strip (upper v)) r) \<longrightarrow>
            (\<exists>r\<in>set db. aberto_de (strip (upper v)) r \<and>
               (\<forall>q\<in>set db. aberto_de (strip (upper v)) q \<longrightarrow> hora_inicio q \<le> hora_inicio r) \<and>
               fst (finalizar_reparo now v db) =
                 Inr (id_registro r, now div 1000000 - hora_inicio r, operador_id r) \<and>
               snd (finalizar_reparo now v db) =
                 map (\<lambda>q. if id_registro q = id_registro r
                          then q\<lparr>hora_fim := Some (now div 1000000)\<rparr> else q) db \<and>
               (distinct (map id_registro db) \<longrightarrow>
                  snd (finalizar_reparo now v db) =
                    map (\<lambda>q. if q = r then q\<lparr>hora_fim := Some (now div 1000000)\<rparr> else q) db))) \<and>
         (\<forall>i db'. iniciar_reparo env v operador tipo sh db = (Inr i, db') \<longrightarrow>
            fst (finalizar_reparo now v db') =
              Inr (i, now div 1000000 - agora env div 1000000, upper (strip operador)))"
proof (intro conjI impI allI)
  assume "\<exists>r\<in>set db. aberto_de (strip (upper v)) r"
  then obtain r
    where r: "fetchone (order_by_hora_inicio_desc (filter (aberto_de (strip (upper v))) db)) = Some r"
    using fetchone_exists by blast
  note l = fetchone_latest [OF r]
  note f = finalizar_reparo_existente [OF assms r, of now]
  have "distinct (map id_registro db) \<longrightarrow>
          snd (finalizar_reparo now v db) =
            map (\<lambda>q. if q = r then q\<lparr>hora_fim := Some (now div 1000000)\<rparr> else q) db"
    using l by (simp add: f update_hora_fim_distinct)
  moreover have "snd (finalizar_reparo now v db) =
      map (\<lambda>q. if id_registro q = id_registro r
               then q\<lparr>hora_fim := Some (now div 1000000)\<rparr> else q) db"
    by (simp add: f update_hora_fim_def)
  moreover have "fst (finalizar_reparo now v db) =
      Inr (id_registro r, now div 1000000 - hora_inicio r, operador_id r)"
    by (simp add: f)
  ultimately
  show "\<exists>r\<in>set db. aberto_de (strip (upper v)) r \<and>
          (\<forall>q\<in>set db. aberto_de (strip (upper v)) q \<longrightarrow> hora_inicio q \<le> hora_inicio r) \<and>
          fst (finalizar_reparo now v db) =
            Inr (id_registro r, now div 1000000 - hora_inicio r, operador_id r) \<and>
          snd (finalizar_reparo now v db) =
            map (\<lambda>q. if id_registro q = id_registro r
                     then q\<lparr>hora_fim := Some (now div 1000000)\<rparr> else q) db \<and>
          (distinct (map id_registro db) \<longrightarrow>
             snd (finalizar_reparo now v db) =
               map (\<lambda>q. if q = r then q\<lparr>hora_fim := Some (now div 1000000)\<rparr> else q) db)"
    using l by blast
next
  fix i db'
  assume ok: "iniciar_reparo env v operador tipo sh db = (Inr i, db')"
  define novo where "novo = \<lparr>id_registro = uuid4 env, vin = strip (upper v),
      operador_id = upper (strip operador),
      tipo_retrabalho = map_option strip (se_preenchido tipo), shop = se_preenchido sh,
      hora_inicio = agora env div 1000000, hora_fim = None\<rparr>"
  have livre: "\<forall>r\<in>set db. \<not> aberto_de (strip (upper v)) r"
  proof (rule ccontr)
    assume "\<not> (\<forall>r\<in>set db. \<not> aberto_de (strip (upper v)) r)"
    then obtain r
      where "fetchone (order_by_hora_inicio_desc (filter (aberto_de (strip (upper v))) db)) = Some r"
      using fetchone_exists [of db "aberto_de (strip (upper v))"] by blast
    from iniciar_reparo_existente [OF assms this] ok show False by simp
  qed
  from ok have db': "db' = db @ [novo]" and i: "i = uuid4 env"
    unfolding iniciar_reparo_livre [OF assms livre] novo_def by (auto split: if_splits)
  from livre have "filter (aberto_de (strip (upper v))) db = []"
    by (simp only: filter_empty_conv)
  then have "filter (aberto_de (strip (upper v))) db' = [novo]"
    by (simp add: db' novo_def aberto_de_def)
  then have "fetchone (order_by_hora_inicio_desc (filter (aberto_de (strip (upper v))) db'))
               = Some novo"
    by (simp add: order_by_hora_inicio_desc_def fetchone_def)
  from finalizar_reparo_existente [OF assms this, of now]
  show "fst (finalizar_reparo now v db') =
          Inr (i, now div 1000000 - agora env div 1000000, upper (strip operador))"
    by (simp add: novo_def i)
qed

theorem finalizar_reparo_sucesso_witness:
  "iniciar_reparo \<lparr>agora = 10999999, uuid4 = ''A'', falha_sqlite = False\<rparr>
       ''vin1'' ''op1'' (Some ''rework'') (Some ''BS'') []
     = (Inr ''A'',
        [\<lparr>id_registro = ''A'', vin = ''VIN1'', operador_id = ''OP1'',
          tipo_retrabalho = Some ''rework'', shop = Some ''BS'', hora_inicio = 10,
          hora_fim = None\<rparr>]) \<and>
   fst (finalizar_reparo 70500000 ''vin1''
        [\<lparr>id_registro = ''A'', vin = ''VIN1'', operador_id = ''OP1'',
          tipo_retrabalho = Some ''rework'', shop = Some ''BS'', hora_inicio = 10,
          hora_fim = None\<rparr>])
     = Inr (''A'', 60, ''OP1'') \<and>
   snd (finalizar_reparo 70500000 ''vin1''
        [\<lparr>id_registro = ''A'', vin = ''VIN1'', operador_id = ''OP1'',
          tipo_retrabalho = Some ''rework'', shop = Some ''BS'', hora_inicio = 10,
          hora_fim = None\<rparr>])
     = [\<lparr>id_registro = ''A'', vin = ''VIN1'', operador_id = ''OP1'',
         tipo_retrabalho = Some ''rework'', shop = Some ''BS'', hora_inicio = 10,
         hora_fim = Some 70\<rparr>]"
proof -
  let ?a = "\<lparr>id_registro = ''A'', vin = ''VIN1'', operador_id = ''OP1'',
      tipo_retrabalho = Some ''rework'', shop = Some ''BS'', hora_inicio = 10,
      hora_fim = None\<rparr>"
  let ?env = "\<lparr>agora = 10999999, uuid4 = ''A'', falha_sqlite = False\<rparr>"
  have h: "''vin1'' \<noteq> []" by simp
  have n: "strip (upper ''vin1'') = ''VIN1''" by code_simp
  have o: "upper (strip ''op1'') = ''OP1''" by code_simp
  have a: "\<exists>r\<in>set [?a]. aberto_de (strip (upper ''vin1'')) r"
    by (simp add: n aberto_de_def)
  have start: "iniciar_reparo ?env ''vin1'' ''op1'' (Some ''rework'') (Some ''BS'') []
                 = (Inr ''A'', [?a])"
    by code_simp
  note t = finalizar_reparo_sucesso [OF h]
  from t [of "[?a]" 70500000] a
  have db: "snd (finalizar_reparo 70500000 ''vin1'' [?a]) = [?a\<lparr>hora_fim := Some 70\<rparr>]"
    by simp
  from t [of "[]" 70500000 ?env "''op1''" "Some ''rework''" "Some ''BS''"] start
  have res: "fst (finalizar_reparo 70500000 ''vin1'' [?a]) = Inr (''A'', 60, ''OP1'')"
    by (simp add: o)
  from start res db show ?thesis by simp
qed

section \<open>Invariants of the table\<close>

text \<open>
  C1. After every sequence of calls of \<^verbatim>\<open>iniciar_reparo\<close> and \<^verbatim>\<open>finalizar_reparo\<close> from the
  empty table, whatever their arguments, every VIN has at most one row with a null
  \<^verbatim>\<open>hora_fim\<close>. In such a table a start changes the table only when the normalised VIN has no
  open row, and a stop closes at most one row.
\<close>

theorem um_reparo_aberto_por_vin:
  "length (filter (aberto_de w) (executar_todas ops [])) \<le> 1 \<and>
   (snd (iniciar_reparo env v operador tipo sh (executar_todas ops [])) \<noteq> executar_todas ops []
      \<longrightarrow> (\<forall>r\<in>set (executar_todas ops []). \<not> aberto_de (strip (upper v)) r)) \<and>
   length (filter (\<lambda>r. hora_fim r = None) (executar_todas ops []))
     \<le> Suc (length (filter (\<lambda>r. hora_fim r = None)
                (snd (finalizar_reparo now v (executar_todas ops [])))))"
proof (intro conjI impI)
  show "length (filter (aberto_de w) (executar_todas ops [])) \<le> 1"
    by (rule executar_todas_um_aberto) simp
next
  assume "snd (iniciar_reparo env v operador tipo sh (executar_todas ops [])) \<noteq> executar_todas ops []"
  with iniciar_reparo_casos [of env v operador tipo sh "executar_todas ops []"]
  show "\<forall>r\<in>set (executar_todas ops []). \<not> aberto_de (strip (upper v)) r"
    by blast
next
  have d: "distinct (map id_registro (executar_todas ops []))"
    by (rule executar_todas_distinct) simp
  from finalizar_reparo_casos [of now v "executar_todas ops []"]
  show "length (filter (\<lambda>r. hora_fim r = None) (executar_todas ops []))
          \<le> Suc (length (filter (\<lambda>r. hora_fim r = None)
                     (snd (finalizar_reparo now v (executar_todas ops [])))))"
  proof
    assume "snd (finalizar_reparo now v (executar_todas ops [])) = executar_todas ops []"
    then show ?thesis by simp
  next
    assume "\<exists>r\<in>set (executar_todas ops []). aberto_de (strip (upper v)) r \<and>
      snd (finalizar_reparo now v (executar_todas ops [])) =
        update_hora_fim (now div 1000000) (id_registro r) (executar_todas ops [])"
    then obtain r where "r \<in> set (executar_todas ops [])"
      and "snd (finalizar_reparo now v (executar_todas ops [])) =
        update_hora_fim (now div 1000000) (id_registro r) (executar_todas ops [])"
      by blast
    with abertos_update_hora_fim [OF d, of "now div 1000000" "id_registro r"]
    show ?thesis by simp
  qed
qed

theorem um_reparo_aberto_por_vin_witness:
  "executar_todas
     [Iniciar \<lparr>agora = 10999999, uuid4 = ''A'', falha_sqlite = False\<rparr>
        ''x1'' ''op1'' None (Some ''BS''),
      Iniciar \<lparr>agora = 30000000, uuid4 = ''B'', falha_sqlite = False\<rparr>
        '' X1'' ''op2'' None (Some ''PS''),
      Finalizar 70500000 ''x1'',
      Iniciar \<lparr>agora = 80000000, uuid4 = ''C'', falha_sqlite = False\<rparr>
        ''x1'' ''op3'' None (Some ''GA'')] []
     = [\<lparr>id_registro = ''A'', vin = ''X1'', operador_id = ''OP1'', tipo_retrabalho = None,
         shop = Some ''BS'', hora_inicio = 10, hora_fim = Some 70\<rparr>,
        \<lparr>id_registro = ''C'', vin = ''X1'', operador_id = ''OP3'', tipo_retrabalho = None,
         shop = Some ''GA'', hora_inicio = 80, hora_fim = None\<rparr>] \<and>
   length (filter (aberto_de ''X1'')
     [\<lparr>id_registro = ''A'', vin = ''X1'', operador_id = ''OP1'', tipo_retrabalho = None,
       shop = Some ''BS'', hora_inicio = 10, hora_fim = Some 70\<rparr>,
      \<lparr>id_registro = ''C'', vin = ''X1'', operador_id = ''OP3'', tipo_retrabalho = None,
       shop = Some ''GA'', hora_inicio = 80, hora_fim = None\<rparr>]) \<le> 1 \<and>
   filter (aberto_de (strip (upper ''x2'')))
     [\<lparr>id_registro = ''A'', vin = ''X1'', operador_id = ''OP1'', tipo_retrabalho = None,
       shop = Some ''BS'', hora_inicio = 10, hora_fim = Some 70\<rparr>,
      \<lparr>id_registro = ''C'', vin = ''X1'', operador_id = ''OP3'', tipo_retrabalho = None,
       shop = Some ''GA'', hora_inicio = 80, hora_fim = None\<rparr>] = []"
proof -
  let ?ops = "[Iniciar \<lparr>agora = 10999999, uuid4 = ''A'', falha_sqlite = False\<rparr>
        ''x1'' ''op1'' None (Some ''BS''),
      Iniciar \<lparr>agora = 30000000, uuid4 = ''B'', falha_sqlite = False\<rparr>
        '' X1'' ''op2'' None (Some ''PS''),
      Finalizar 70500000 ''x1'',
      Iniciar \<lparr>agora = 80000000, uuid4 = ''C'', falha_sqlite = False\<rparr>
        ''x1'' ''op3'' None (Some ''GA'')]"
  let ?db = "[\<lparr>id_registro = ''A'', vin = ''X1'', operador_id = ''OP1'', tipo_retrabalho = None,
         shop = Some ''BS'', hora_inicio = 10, hora_fim = Some 70\<rparr>,
        \<lparr>id_registro = ''C'', vin = ''X1'', operador_id = ''OP3'', tipo_retrabalho = None,
         shop = Some ''GA'', hora_inicio = 80, hora_fim = None\<rparr>]"
  let ?env = "\<lparr>agora = 90000000, uuid4 = ''D'', falha_sqlite = False\<rparr>"
  have e: "executar_todas ?ops [] = ?db"
    by code_simp
  have h: "snd (iniciar_reparo ?env ''x2'' ''op4'' None (Some ''BS'') ?db) \<noteq> ?db"
    by code_simp
  from um_reparo_aberto_por_vin [of "''X1''" ?ops ?env "''x2''" "''op4''" None "Some ''BS''"]
  have "length (filter (aberto_de ''X1'') ?db) \<le> 1 \<and>
        (snd (iniciar_reparo ?env ''x2'' ''op4'' None (Some ''BS'') ?db) \<noteq> ?db
           \<longrightarrow> (\<forall>r\<in>set ?db. \<not> aberto_de (strip (upper ''x2'')) r))"
    unfolding e by blast
  with h have l: "length (filter (aberto_de ''X1'') ?db) \<le> 1"
    and b: "\<forall>r\<in>set ?db. \<not> aberto_de (strip (upper ''x2'')) r"
    by blast+
  from b have "filter (aberto_de (strip (upper ''x2''))) ?db = []"
    by (simp only: filter_empty_conv)
  with e l show ?thesis by blast
qed

text \<open>
  C7. In a table whose ids are unique (the column is the primary key), a row whose
  \<^verbatim>\<open>hora_fim\<close> is set is still in the table, unchanged, after any sequence of calls of
  \<^verbatim>\<open>iniciar_reparo\<close> and \<^verbatim>\<open>finalizar_reparo\<close>, and the ids stay unique: no call rewrites or
  clears an end that was written.
\<close>

theorem hora_fim_escrita_uma_vez:
  assumes "distinct (map id_registro db)" and "r \<in> set db" and "hora_fim r \<noteq> None"
  shows "r \<in> set (executar_todas ops db) \<and> distinct (map id_registro (executar_todas ops db))"
proof
  from assms show "r \<in> set (executar_todas ops db)"
  proof (induction ops arbitrary: db)
    case Nil
    then show ?case by (simp add: executar_todas_def)
  next
    case (Cons op ops)
    from Cons.IH [OF executar_distinct [OF Cons.prems(1)] executar_fechado [OF Cons.prems] Cons.prems(3)]
    show ?case by (simp add: executar_todas_def)
  qed
next
  from assms(1) show "distinct (map id_registro (executar_todas ops db))"
    by (rule executar_todas_distinct)
qed

theorem hora_fim_escrita_uma_vez_witness:
  "\<lparr>id_registro = ''A'', vin = ''X1'', operador_id = ''OP1'', tipo_retrabalho = None,
     shop = Some ''BS'', hora_inicio = 10, hora_fim = Some 70\<rparr>
     \<in> set (executar_todas
         [Finalizar 95000000 ''x1'',
          Iniciar \<lparr>agora = 99000000, uuid4 = ''C'', falha_sqlite = False\<rparr>
            ''x1'' ''op3'' None (Some ''GA''),
          Finalizar 120000000 ''x1'']
         [\<lparr>id_registro = ''A'', vin = ''X1'', operador_id = ''OP1'', tipo_retrabalho = None,
           shop = Some ''BS'', hora_inicio = 10, hora_fim = Some 70\<rparr>,
          \<lparr>id_registro = ''B'', vin = ''X1'', operador_id = ''OP2'', tipo_retrabalho = None,
           shop = Some ''PS'', hora_inicio = 80, hora_fim = None\<rparr>]) \<and>
   distinct (map id_registro (executar_todas
         [Finalizar 95000000 ''x1'',
          Iniciar \<lparr>agora = 99000000, uuid4 = ''C'', falha_sqlite = False\<rparr>
            ''x1'' ''op3'' None (Some ''GA''),
          Finalizar 120000000 ''x1'']
         [\<lparr>id_registro = ''A'', vin = ''X1'', operador_id = ''OP1'', tipo_retrabalho = None,
           shop = Some ''BS'', hora_inicio = 10, hora_fim = Some 70\<rparr>,
          \<lparr>id_registro = ''B'', vin = ''X1'', operador_id = ''OP2'', tipo_retrabalho = None,
           shop = Some ''PS'', hora_inicio = 80, hora_fim = None\<rparr>]))"
proof -
  let ?a = "\<lparr>id_registro = ''A'', vin = ''X1'', operador_id = ''OP1'', tipo_retrabalho = None,
     shop = Some ''BS'', hora_inicio = 10, hora_fim = Some 70\<rparr>"
  let ?b = "\<lparr>id_registro = ''B'', vin = ''X1'', operador_id = ''OP2'', tipo_retrabalho = None,
     shop = Some ''PS'', hora_inicio = 80, hora_fim = None\<rparr>"
  have h1: "distinct (map id_registro [?a, ?b])" by simp
  have h2: "?a \<in> set [?a, ?b]" by simp
  have h3: "hora_fim ?a \<noteq> None" by simp
  show ?thesis by (rule hora_fim_escrita_uma_vez [OF h1 h2 h3])
qed

section \<open>Query and MTTR\<close>

text \<open>
  C6, as the code has it. \<^verbatim>\<open>get_registros\<close> puts the filter in upper case and does not trim
  it: the filter \<^verbatim>\<open>" abc123"\<close> finds no row although a row is stored under \<^verbatim>\<open>"ABC123"\<close>, the
  normalised form of the filter.
\<close>

theorem get_registros_filtro_vin_counterexample:
  "get_registros
     \<lparr>filtro_operador = None, filtro_vin = Some '' abc123'', filtro_data_inicio = None,
      filtro_data_fim = None, apenas_completos = False\<rparr>
     [\<lparr>id_registro = ''A'', vin = ''ABC123'', operador_id = ''OP1'', tipo_retrabalho = None,
       shop = Some ''BS'', hora_inicio = 10, hora_fim = Some 70\<rparr>] = [] \<and>
   vin \<lparr>id_registro = ''A'', vin = ''ABC123'', operador_id = ''OP1'', tipo_retrabalho = None,
       shop = Some ''BS'', hora_inicio = 10, hora_fim = Some 70\<rparr> = strip (upper '' abc123'')"
  by code_simp

text \<open>
  C6, amended. For every table and every non-empty filter text, \<^verbatim>\<open>get_registros\<close> with
  \<^verbatim>\<open>filtro_vin\<close> alone returns exactly the rows whose stored vin equals the filter in upper
  case, latest start first; for a filter with no surrounding whitespace that is the
  normalised form of the filter, whatever its case.
\<close>

theorem get_registros_filtro_vin:
  assumes "fv \<noteq> []"
  shows "map fst (get_registros
            \<lparr>filtro_operador = None, filtro_vin = Some fv, filtro_data_inicio = None,
             filtro_data_fim = None, apenas_completos = False\<rparr> db)
           = order_by_hora_inicio_desc (filter (\<lambda>r. vin r = upper fv) db) \<and>
         (strip fv = fv \<longrightarrow> upper fv = strip (upper fv))"
proof
  have "where_registros
          \<lparr>filtro_operador = None, filtro_vin = Some fv, filtro_data_inicio = None,
           filtro_data_fim = None, apenas_completos = False\<rparr> = (\<lambda>r. vin r = upper fv)"
    using assms by (simp add: where_registros_def se_preenchido_def fun_eq_iff)
  then show "map fst (get_registros
            \<lparr>filtro_operador = None, filtro_vin = Some fv, filtro_data_inicio = None,
             filtro_data_fim = None, apenas_completos = False\<rparr> db)
           = order_by_hora_inicio_desc (filter (\<lambda>r. vin r = upper fv) db)"
    by (simp add: get_registros_def comp_def)
next
  show "strip fv = fv \<longrightarrow> upper fv = strip (upper fv)"
    by (simp add: strip_upper)
qed

theorem get_registros_filtro_vin_witness:
  "map fst (get_registros
     \<lparr>filtro_operador = None, filtro_vin = Some ''abc123'', filtro_data_inicio = None,
      filtro_data_fim = None, apenas_completos = False\<rparr>
     [\<lparr>id_registro = ''A'', vin = ''ABC123'', operador_id = ''OP1'', tipo_retrabalho = None,
       shop = Some ''BS'', hora_inicio = 10, hora_fim = Some 70\<rparr>,
      \<lparr>id_registro = ''B'', vin = ''XYZ'', operador_id = ''OP1'', tipo_retrabalho = None,
       shop = Some ''BS'', hora_inicio = 80, hora_fim = Some 90\<rparr>,
      \<lparr>id_registro = ''C'', vin = ''ABC123'', operador_id = ''OP2'', tipo_retrabalho = None,
       shop = Some ''PS'', hora_inicio = 100, hora_fim = None\<rparr>])
     = [\<lparr>id_registro = ''C'', vin = ''ABC123'', operador_id = ''OP2'', tipo_retrabalho = None,
         shop = Some ''PS'', hora_inicio = 100, hora_fim = None\<rparr>,
        \<lparr>id_registro = ''A'', vin = ''ABC123'', operador_id = ''OP1'', tipo_retrabalho = None,
         shop = Some ''BS'', hora_inicio = 10, hora_fim = Some 70\<rparr>] \<and>
   upper ''abc123'' = strip (upper ''abc123'')"
proof -
  have h: "''abc123'' \<noteq> []" by simp
  have s: "strip ''abc123'' = ''abc123''" by code_simp
  have u: "upper ''abc123'' = ''ABC123''" by code_simp
  note t = get_registros_filtro_vin [OF h]
  from t s have "upper ''abc123'' = strip (upper ''abc123'')"
    by blast
  moreover from t [of "[\<lparr>id_registro = ''A'', vin = ''ABC123'', operador_id = ''OP1'',
       tipo_retrabalho = None, shop = Some ''BS'', hora_inicio = 10, hora_fim = Some 70\<rparr>,
      \<lparr>id_registro = ''B'', vin = ''XYZ'', operador_id = ''OP1'', tipo_retrabalho = None,
       shop = Some ''BS'', hora_inicio = 80, hora_fim = Some 90\<rparr>,
      \<lparr>id_registro = ''C'', vin = ''ABC123'', operador_id = ''OP2'', tipo_retrabalho = None,
       shop = Some ''PS'', hora_inicio = 100, hora_fim = None\<rparr>]"]
  have "map fst (get_registros
     \<lparr>filtro_operador = None, filtro_vin = Some ''abc123'', filtro_data_inicio = None,
      filtro_data_fim = None, apenas_completos = False\<rparr>
     [\<lparr>id_registro = ''A'', vin = ''ABC123'', operador_id = ''OP1'', tipo_retrabalho = None,
       shop = Some ''BS'', hora_inicio = 10, hora_fim = Some 70\<rparr>,
      \<lparr>id_registro = ''B'', vin = ''XYZ'', operador_id = ''OP1'', tipo_retrabalho = None,
       shop = Some ''BS'', hora_inicio = 80, hora_fim = Some 90\<rparr>,
      \<lparr>id_registro = ''C'', vin = ''ABC123'', operador_id = ''OP2'', tipo_retrabalho = None,
       shop = Some ''PS'', hora_inicio = 100, hora_fim = None\<rparr>])
     = [\<lparr>id_registro = ''C'', vin = ''ABC123'', operador_id = ''OP2'', tipo_retrabalho = None,
         shop = Some ''PS'', hora_inicio = 100, hora_fim = None\<rparr>,
        \<lparr>id_registro = ''A'', vin = ''ABC123'', operador_id = ''OP1'', tipo_retrabalho = None,
         shop = Some ''BS'', hora_inicio = 10, hora_fim = Some 70\<rparr>]"
    by (simp add: u order_by_hora_inicio_desc_def)
  ultimately show ?thesis by simp
qed

text \<open>
  C8. The MTTR of the data view is the arithmetic mean of \<^verbatim>\<open>hora_fim - hora_inicio\<close>, in
  minutes, over the closed rows that pass the filters (and is not shown when there is none);
  over closed rows of 10, 20 and 30 minutes it is 20 minutes.
\<close>

theorem tempo_medio_media_aritmetica:
  "tempo_medio f db =
     (if fechados_filtrados f db = [] then None
      else Some (media_aritmetica_spec (fechados_filtrados f db)))"
proof -
  have "(order_by_hora_inicio_desc (fechados_filtrados f db) = []) =
          (fechados_filtrados f db = [])"
    by (rule order_Nil)
  then show ?thesis
    by (simp add: tempo_medio_def dropna_get_registros media_aritmetica_spec_def
          sum_list_order length_order)
qed

theorem tempo_medio_media_aritmetica_witness:
  "tempo_medio
     \<lparr>filtro_operador = None, filtro_vin = None, filtro_data_inicio = None,
      filtro_data_fim = None, apenas_completos = True\<rparr>
     [\<lparr>id_registro = ''A'', vin = ''X1'', operador_id = ''OP1'', tipo_retrabalho = None,
       shop = Some ''BS'', hora_inicio = 0, hora_fim = Some 600\<rparr>,
      \<lparr>id_registro = ''B'', vin = ''X2'', operador_id = ''OP1'', tipo_retrabalho = None,
       shop = Some ''PS'', hora_inicio = 1000, hora_fim = Some 2200\<rparr>,
      \<lparr>id_registro = ''C'', vin = ''X3'', operador_id = ''OP2'', tipo_retrabalho = None,
       shop = Some ''GA'', hora_inicio = 3000, hora_fim = Some 4800\<rparr>,
      \<lparr>id_registro = ''D'', vin = ''X4'', operador_id = ''OP2'', tipo_retrabalho = None,
       shop = Some ''GA'', hora_inicio = 5000, hora_fim = None\<rparr>]
     = Some 20"
proof -
  let ?f = "\<lparr>filtro_operador = None, filtro_vin = None, filtro_data_inicio = None,
      filtro_data_fim = None, apenas_completos = True\<rparr>"
  let ?db = "[\<lparr>id_registro = ''A'', vin = ''X1'', operador_id = ''OP1'', tipo_retrabalho = None,
       shop = Some ''BS'', hora_inicio = 0, hora_fim = Some 600\<rparr>,
      \<lparr>id_registro = ''B'', vin = ''X2'', operador_id = ''OP1'', tipo_retrabalho = None,
       shop = Some ''PS'', hora_inicio = 1000, hora_fim = Some 2200\<rparr>,
      \<lparr>id_registro = ''C'', vin = ''X3'', operador_id = ''OP2'', tipo_retrabalho = None,
       shop = Some ''GA'', hora_inicio = 3000, hora_fim = Some 4800\<rparr>,
      \<lparr>id_registro = ''D'', vin = ''X4'', operador_id = ''OP2'', tipo_retrabalho = None,
       shop = Some ''GA'', hora_inicio = 5000, hora_fim = None\<rparr>]"
  have "(if fechados_filtrados ?f ?db = [] then None
         else Some (media_aritmetica_spec (fechados_filtrados ?f ?db))) = Some 20"
    by (simp add: fechados_filtrados_def where_registros_def se_preenchido_def
          media_aritmetica_spec_def)
  with tempo_medio_media_aritmetica [of ?f ?db] show ?thesis by simp
qed

end
